theory Spec2Isabelle
  imports Main "HOL-Library.Word"
begin

section \<open>Exercise (trainer/api/exercise.h)\<close>

text \<open>
  The C++ class \<open>trainer::api::Exercise\<close> has four private fields and three public
  constructors, each delegating to the next one:
  \<^verbatim>\<open>
  Exercise(std::string name, ExerciseType exerciseType)
      : Exercise(std::move(name), exerciseType, "") {}
  Exercise(std::string name, ExerciseType exerciseType, std::string description)
      : Exercise(0, name, exerciseType, std::move(description)) {};
  Exercise(int id, std::string name, ExerciseType exerciseType, std::string description)
      : id(id), name(std::move(name)), exerciseType(exerciseType),
        description(std::move(description)) {};
  \<close>
  The field \<open>int id\<close> is a 32-bit machine integer, \<open>std::string\<close> is a character list.
  The field \<open>id\<close> is called \<open>id_field\<close> here, since \<open>id\<close> is the identity function of HOL;
  the three overloads of the constructor are told apart by their number of arguments.
\<close>

datatype ExerciseType = BARBELL | KETTLEBELL

record Exercise =
  id_field :: "32 word"
  name :: string
  description :: string
  exerciseType :: ExerciseType

definition Exercise4 :: "32 word \<Rightarrow> string \<Rightarrow> ExerciseType \<Rightarrow> string \<Rightarrow> Exercise" where
  "Exercise4 i n t d = \<lparr>id_field = i, name = n, description = d, exerciseType = t\<rparr>"

definition Exercise3 :: "string \<Rightarrow> ExerciseType \<Rightarrow> string \<Rightarrow> Exercise" where
  "Exercise3 n t d = Exercise4 0 n t d"

definition Exercise2 :: "string \<Rightarrow> ExerciseType \<Rightarrow> Exercise" where
  "Exercise2 n t = Exercise3 n t ''''"

text \<open>
  \<^verbatim>\<open>
  std::optional<int> getId() {
      if (id != 0) { return id; } else { return std::nullopt; }
  }
  \<close>
\<close>

definition getId :: "Exercise \<Rightarrow> 32 word option" where
  "getId e = (if id_field e \<noteq> 0 then Some (id_field e) else None)"

definition getName :: "Exercise \<Rightarrow> string" where
  "getName e = name e"

definition getDescription :: "Exercise \<Rightarrow> string" where
  "getDescription e = description e"

definition getExerciseType :: "Exercise \<Rightarrow> ExerciseType" where
  "getExerciseType e = exerciseType e"

lemmas Exercise_defs =
  Exercise4_def Exercise3_def Exercise2_def
  getId_def getName_def getDescription_def getExerciseType_def


section \<open>Training Sequencer\<close>

text \<open>
  The repository holds no code of the Training Sequencer: its README describes a training
  sequence as a list of training plans that is repeated, and the specification gives the
  contract of the operation. The definitions of this section follow the specification.
\<close>

text \<open>
  Modelled from the spec: the error taxonomy of the core (section 7), of which the
  Sequencer uses \<open>EmptySequence\<close>; no error type is declared in the sources.
\<close>

datatype error =
    EmptySequence
  | InvalidIncrement
  | OutOfOrderLog
  | ConcurrentScheduleConflict
  | UnknownLift
  | UnknownPlan

type_synonym PlanId = string

text \<open>
  Modelled from the spec: the TrainingSequence of section 3, which is missing from the
  sources: an ordered, cyclic list of TrainingPlan identifiers plus a cursor, the index of
  the last plan dispensed (absent on a fresh start).
\<close>

record TrainingSequence =
  plans :: "PlanId list"
  cursor :: "nat option"

text \<open>
  Modelled from the spec: the index that \<open>next\<close> dispenses (section 4.1), a function
  missing from the sources: \<open>(lastDispensedIndex + 1) mod length\<close>, and index 0 on the
  first call, when no index has been dispensed yet.
\<close>

definition next_index :: "PlanId list \<Rightarrow> nat option \<Rightarrow> nat" where
  "next_index ps lastDispensedIndex =
     (case lastDispensedIndex of None \<Rightarrow> 0 | Some i \<Rightarrow> (i + 1) mod length ps)"

text \<open>
  Modelled from the spec: the Sequencer operation \<open>next(sequence, lastDispensedIndex)\<close>
  of section 4.1, missing from the sources (\<open>next\<close> is a keyword of Isabelle, hence
  \<open>next_plan\<close>). It fails with \<open>EmptySequence\<close> if the sequence has zero plans, and
  otherwise returns the plan at the next index.
\<close>

definition next_plan :: "PlanId list \<Rightarrow> nat option \<Rightarrow> error + PlanId" where
  "next_plan ps lastDispensedIndex =
     (if ps = [] then Inl EmptySequence
      else Inr (ps ! next_index ps lastDispensedIndex))"

text \<open>
  Modelled from the spec: the interface \<open>sequencer.next(sequenceId, confirm)\<close> of
  section 6, missing from the sources. The last dispensed index is the cursor of the
  sequence; the cursor advances only when the caller confirms that the dispensed plan was
  started, and a query without confirmation leaves the sequence as it is.
\<close>

definition sequencer_next ::
  "TrainingSequence \<Rightarrow> bool \<Rightarrow> (error + PlanId) \<times> TrainingSequence" where
  "sequencer_next sq confirm =
     (case next_plan (plans sq) (cursor sq) of
        Inl e \<Rightarrow> (Inl e, sq)
      | Inr p \<Rightarrow>
          (Inr p,
           if confirm then sq\<lparr>cursor := Some (next_index (plans sq) (cursor sq))\<rparr>
           else sq))"

text \<open>
  Modelled from the spec: \<open>n\<close> calls of \<open>sequencer.next\<close> in a row, each confirmed
  (section 8, cyclic coverage); the plans dispensed, in the order of the calls.
\<close>

fun confirmed_starts :: "nat \<Rightarrow> TrainingSequence \<Rightarrow> PlanId list" where
  "confirmed_starts 0 sq = []"
| "confirmed_starts (Suc n) sq =
     (case sequencer_next sq True of
        (Inl e, sq') \<Rightarrow> []
      | (Inr p, sq') \<Rightarrow> p # confirmed_starts n sq')"


section \<open>Properties of Exercise\<close>

text \<open>
  C1 (as stated): every Exercise built by a public constructor has a non-empty name.
  The constructors do not look at the name: the two-argument constructor applied to the
  empty string yields an Exercise whose name is the empty string.
\<close>

theorem C1_empty_name_constructible:
  "name (Exercise2 '''' BARBELL) = '''' \<and> getName (Exercise2 '''' BARBELL) = ''''"
  by (simp add: Exercise_defs)

text \<open>
  C1 (amended): the constructors store the name they are given, unchanged and without any
  validation, so the name of the constructed Exercise is non-empty exactly when the name
  passed to the constructor is non-empty.
\<close>

theorem C1_name_stored_unchanged:
  "name (Exercise2 n t) = n
   \<and> name (Exercise3 n t d) = n
   \<and> name (Exercise4 i n t d) = n
   \<and> (name (Exercise2 n t) \<noteq> '''') = (n \<noteq> '''')
   \<and> (name (Exercise3 n t d) \<noteq> '''') = (n \<noteq> '''')
   \<and> (name (Exercise4 i n t d) \<noteq> '''') = (n \<noteq> '''')"
  by (simp add: Exercise_defs)

theorem C1_name_stored_unchanged_witness:
  "name (Exercise2 ''Squat'' BARBELL) = ''Squat''
   \<and> name (Exercise3 ''Squat'' BARBELL ''low bar'') = ''Squat''
   \<and> name (Exercise4 7 ''Squat'' BARBELL ''low bar'') = ''Squat''
   \<and> name (Exercise2 ''Squat'' BARBELL) \<noteq> ''''
   \<and> name (Exercise3 ''Squat'' BARBELL ''low bar'') \<noteq> ''''
   \<and> name (Exercise4 7 ''Squat'' BARBELL ''low bar'') \<noteq> ''''"
  using C1_name_stored_unchanged [of "''Squat''" BARBELL "''low bar''" 7]
  by simp

text \<open>
  C2: an Exercise built without an explicit id (two-argument or three-argument constructor)
  has no id: getId returns the absent value.
\<close>

theorem C2_getId_unset_without_id:
  "getId (Exercise2 n t) = None \<and> getId (Exercise3 n t d) = None"
  by (simp add: Exercise_defs)

text \<open>
  C3: getId returns the stored id when it is nonzero, and the absent value exactly when the
  stored id is 0; the four-argument constructor with id 0 gives the same getId as the
  constructors without an id.
\<close>

theorem C3_getId_zero_is_unset:
  "getId e = (if id_field e = 0 then None else Some (id_field e))
   \<and> (getId e = None) = (id_field e = 0)
   \<and> getId (Exercise4 i n t d) = (if i = 0 then None else Some i)
   \<and> getId (Exercise4 0 n t d) = getId (Exercise3 n' t' d')
   \<and> getId (Exercise4 0 n t d) = getId (Exercise2 n' t')"
  by (simp add: Exercise_defs)

text \<open>
  C4: the getters getName, getExerciseType and getDescription return exactly the values
  passed to the constructor, for each of the three constructors; after the two-argument
  constructor getDescription returns the empty string.
\<close>

theorem C4_getters_return_constructor_arguments:
  "getName (Exercise4 i n t d) = n
   \<and> getExerciseType (Exercise4 i n t d) = t
   \<and> getDescription (Exercise4 i n t d) = d
   \<and> getName (Exercise3 n t d) = n
   \<and> getExerciseType (Exercise3 n t d) = t
   \<and> getDescription (Exercise3 n t d) = d
   \<and> getName (Exercise2 n t) = n
   \<and> getExerciseType (Exercise2 n t) = t
   \<and> getDescription (Exercise2 n t) = ''''"
  by (simp add: Exercise_defs)


section \<open>Properties of the Training Sequencer\<close>

lemma next_index_less: "ps \<noteq> [] \<Longrightarrow> next_index ps l < length ps"
  by (simp add: next_index_def split: option.splits)

lemma sequencer_next_result:
  "fst (sequencer_next sq confirm) = next_plan (plans sq) (cursor sq)"
  by (simp add: sequencer_next_def split: sum.splits)

lemma sequencer_next_unconfirmed: "snd (sequencer_next sq False) = sq"
  by (simp add: sequencer_next_def split: sum.splits)

text \<open>
  C5: on a non-empty sequence, \<open>next\<close> returns the plan at index
  \<open>(lastDispensedIndex + 1) mod length\<close>, an index inside the sequence, and on a first
  call (no last dispensed index) the plan at index 0; so does \<open>sequencer.next\<close>, which
  reads the last dispensed index from the cursor.
\<close>

theorem C5_next_plan_cyclic_successor:
  "sq \<noteq> [] \<Longrightarrow>
     next_plan sq (Some i) = Inr (sq ! ((i + 1) mod length sq))
     \<and> (i + 1) mod length sq < length sq
     \<and> next_plan sq None = Inr (sq ! 0)
     \<and> fst (sequencer_next \<lparr>plans = sq, cursor = Some i\<rparr> confirm)
         = Inr (sq ! ((i + 1) mod length sq))
     \<and> fst (sequencer_next \<lparr>plans = sq, cursor = None\<rparr> confirm) = Inr (sq ! 0)"
  by (simp add: sequencer_next_result next_plan_def next_index_def)

theorem C5_next_plan_witness:
  "[''9DL/8SQ/7BP'', ''9SQ/8BP/7DL'', ''9BP/8DL/7SQ''] \<noteq> []
   \<and> next_plan [''9DL/8SQ/7BP'', ''9SQ/8BP/7DL'', ''9BP/8DL/7SQ''] (Some 0) = Inr ''9SQ/8BP/7DL''
   \<and> next_plan [''9DL/8SQ/7BP'', ''9SQ/8BP/7DL'', ''9BP/8DL/7SQ''] (Some 2) = Inr ''9DL/8SQ/7BP''
   \<and> next_plan [''9DL/8SQ/7BP'', ''9SQ/8BP/7DL'', ''9BP/8DL/7SQ''] None = Inr ''9DL/8SQ/7BP''"
  using
    C5_next_plan_cyclic_successor [of "[''9DL/8SQ/7BP'', ''9SQ/8BP/7DL'', ''9BP/8DL/7SQ'']" 0]
    C5_next_plan_cyclic_successor [of "[''9DL/8SQ/7BP'', ''9SQ/8BP/7DL'', ''9BP/8DL/7SQ'']" 2]
  by simp

text \<open>
  C6: \<open>next\<close> fails with \<open>EmptySequence\<close> if and only if the sequence has zero plans,
  and it returns a plan identifier of the sequence if and only if the sequence is not
  empty; the same holds of \<open>sequencer.next\<close>, with or without confirmation.
\<close>

theorem C6_next_plan_fails_iff_empty:
  "(next_plan sq l = Inl EmptySequence) = (sq = [])
   \<and> (\<exists>p. next_plan sq l = Inr p \<and> p \<in> set sq) = (sq \<noteq> [])
   \<and> (fst (sequencer_next s confirm) = Inl EmptySequence) = (plans s = [])
   \<and> (\<exists>p. fst (sequencer_next s confirm) = Inr p \<and> p \<in> set (plans s)) = (plans s \<noteq> [])"
  by (auto simp add: sequencer_next_result next_plan_def next_index_less)

theorem C6_next_plan_witness:
  "next_plan [] None = Inl EmptySequence
   \<and> next_plan [] (Some 4) = Inl EmptySequence
   \<and> next_plan [''9DL/8SQ/7BP''] (Some 4) \<noteq> Inl EmptySequence"
  using C6_next_plan_fails_iff_empty [of "[]" None]
    C6_next_plan_fails_iff_empty [of "[]" "Some 4"]
    C6_next_plan_fails_iff_empty [of "[''9DL/8SQ/7BP'']" "Some 4"]
  by simp

subsection \<open>Cyclic coverage\<close>

text \<open>
  Confirmed starts walk through the sequence in order: after the plan at index \<open>i\<close> the
  \<open>k\<close>-th next start is the plan at index \<open>(i + 1 + k) mod length\<close>.
\<close>

lemma confirmed_starts_from:
  "plans sq \<noteq> [] \<Longrightarrow> cursor sq = Some i \<Longrightarrow>
   confirmed_starts n sq = map (\<lambda>k. plans sq ! ((i + 1 + k) mod length (plans sq))) [0..<n]"
proof (induction n arbitrary: sq i)
  case 0
  then show ?case by simp
next
  case (Suc n)
  let ?L = "length (plans sq)"
  let ?sq' = "sq\<lparr>cursor := Some ((i + 1) mod ?L)\<rparr>"
  have step: "sequencer_next sq True = (Inr (plans sq ! ((i + 1) mod ?L)), ?sq')"
    using Suc.prems by (simp add: sequencer_next_def next_plan_def next_index_def)
  have "confirmed_starts n ?sq'
        = map (\<lambda>k. plans sq ! (((i + 1) mod ?L + 1 + k) mod ?L)) [0..<n]"
    using Suc.IH [of ?sq' "(i + 1) mod ?L"] Suc.prems by simp
  also have "\<dots> = map (\<lambda>k. plans sq ! ((i + 1 + Suc k) mod ?L)) [0..<n]"
  proof -
    have "((i + 1) mod ?L + 1 + k) mod ?L = (i + 1 + Suc k) mod ?L" for k
      using mod_add_left_eq [of "i + 1" ?L "1 + k"] by (simp add: add.assoc)
    then show ?thesis by simp
  qed
  finally have rest: "confirmed_starts n ?sq'
        = map (\<lambda>k. plans sq ! ((i + 1 + Suc k) mod ?L)) [0..<n]" .
  have "map (\<lambda>k. plans sq ! ((i + 1 + k) mod ?L)) [0..<Suc n]
        = plans sq ! ((i + 1) mod ?L)
          # map (\<lambda>k. plans sq ! ((i + 1 + Suc k) mod ?L)) [0..<n]"
    by (simp only: upt_conv_Cons [of 0 "Suc n"] map_Suc_upt [symmetric])
       (simp add: comp_def del: upt_Suc)
  then show ?case using step rest by simp
qed

lemma confirmed_starts_fresh:
  assumes "plans sq \<noteq> []" and "cursor sq = None"
  shows "confirmed_starts n sq = map (\<lambda>k. plans sq ! (k mod length (plans sq))) [0..<n]"
proof (cases n)
  case 0
  then show ?thesis by simp
next
  case (Suc m)
  let ?sq' = "sq\<lparr>cursor := Some 0\<rparr>"
  have step: "sequencer_next sq True = (Inr (plans sq ! 0), ?sq')"
    using assms by (simp add: sequencer_next_def next_plan_def next_index_def)
  have rest: "confirmed_starts m ?sq'
              = map (\<lambda>k. plans sq ! (Suc k mod length (plans sq))) [0..<m]"
    using confirmed_starts_from [of ?sq' 0 m] assms by simp
  have "map (\<lambda>k. plans sq ! (k mod length (plans sq))) [0..<Suc m]
        = plans sq ! 0 # map (\<lambda>k. plans sq ! (Suc k mod length (plans sq))) [0..<m]"
    by (simp only: upt_conv_Cons [of 0 "Suc m"] map_Suc_upt [symmetric])
       (simp add: comp_def del: upt_Suc)
  then show ?thesis using step rest Suc by simp
qed

text \<open>
  From a fresh sequence of length \<open>L\<close>, \<open>L\<close> confirmed starts dispense every plan once,
  in the order of the sequence, and the next start is the first plan again.
\<close>

lemma confirmed_starts_cyclic_coverage:
  assumes "plans sq \<noteq> []" and "cursor sq = None"
  shows "confirmed_starts (length (plans sq)) sq = plans sq
         \<and> confirmed_starts (Suc (length (plans sq))) sq = plans sq @ [plans sq ! 0]"
proof -
  let ?L = "length (plans sq)"
  have once: "map (\<lambda>k. plans sq ! (k mod ?L)) [0..<?L] = plans sq"
    by (rule nth_equalityI) simp_all
  have "confirmed_starts ?L sq = plans sq"
    unfolding confirmed_starts_fresh [OF assms] by (rule once)
  moreover have "confirmed_starts (Suc ?L) sq = plans sq @ [plans sq ! 0]"
    unfolding confirmed_starts_fresh [OF assms] upt_Suc_append [OF le0] map_append once
    by simp
  ultimately show ?thesis by (rule conjI)
qed

end
